theory Spec2Isabelle
  imports Complex_Main "HOL-Library.Multiset"
begin

section \<open>Python values used by the scoring core\<close>

text \<open>
  A Python float is an IEEE double.  The arithmetic of the scoring functions is modelled
  over the reals: a decimal literal stands for its decimal value and an operation for its
  exact result, so the rounding of doubles and their overflow are left out.  Where a
  function only compares a float argument with constants, and in the cells of a table, the
  value ranges over \<open>pyfloat\<close>, which adds the two infinities and NaN.  Every ordered
  comparison with NaN is false, as in Python.
\<close>

datatype pyfloat = Fin real | PInf | NInf | NaN

text \<open>\<open>x < c\<close> and \<open>x > c\<close> for a float \<open>x\<close> and a finite constant \<open>c\<close>.\<close>

fun fl_lt :: "pyfloat \<Rightarrow> real \<Rightarrow> bool" where
  "fl_lt (Fin x) c = (x < c)"
| "fl_lt NInf c = True"
| "fl_lt PInf c = False"
| "fl_lt NaN c = False"

fun fl_gt :: "pyfloat \<Rightarrow> real \<Rightarrow> bool" where
  "fl_gt (Fin x) c = (x > c)"
| "fl_gt PInf c = True"
| "fl_gt NInf c = False"
| "fl_gt NaN c = False"

text \<open>
  \<open>ord\<close> and \<open>chr\<close> on one-character strings.  The grades are ASCII letters, so the
  code points that occur stay far below 256.
\<close>

definition py_ord :: "char \<Rightarrow> int" where
  "py_ord c = of_char c"

definition py_chr :: "int \<Rightarrow> char" where
  "py_chr n = char_of n"

section \<open>Classification and recommendation (comprehensive\_analysis.py)\<close>

text \<open>
  \<open>ComprehensiveInvestmentAnalyzer.determine_grade\<close>: the ladder on the composite score,
  the Piotroski adjustment and the Altman adjustment, with the letter arithmetic of the
  source (\<open>chr(ord(base_grade) - 1)\<close>, \<open>chr(ord(base_grade) + 1)\<close>,
  \<open>chr(min(ord(base_grade) + 1, ord('F')))\<close>).  The result is a one-character string.
\<close>

definition ladder_grade :: "int \<Rightarrow> char" where
  "ladder_grade composite =
     (if composite \<ge> 80 then CHR ''A''
      else if composite \<ge> 65 then CHR ''B''
      else if composite \<ge> 50 then CHR ''C''
      else if composite \<ge> 35 then CHR ''D''
      else CHR ''F'')"

definition piotroski_adjust :: "int \<Rightarrow> char \<Rightarrow> char" where
  "piotroski_adjust piotroski base_grade =
     (if piotroski \<ge> 7 \<and> base_grade \<in> set [CHR ''B'', CHR ''C'']
        then py_chr (py_ord base_grade - 1)
      else if piotroski \<le> 3 \<and> base_grade \<in> set [CHR ''A'', CHR ''B'', CHR ''C'']
        then py_chr (py_ord base_grade + 1)
      else base_grade)"

definition altman_adjust :: "pyfloat \<Rightarrow> char \<Rightarrow> char" where
  "altman_adjust altman base_grade =
     (if fl_lt altman 1.81 \<and> base_grade \<noteq> CHR ''F''
        then py_chr (min (py_ord base_grade + 1) (py_ord CHR ''F''))
      else base_grade)"

definition determine_grade :: "int \<Rightarrow> int \<Rightarrow> pyfloat \<Rightarrow> string" where
  "determine_grade composite piotroski altman =
     [altman_adjust altman (piotroski_adjust piotroski (ladder_grade composite))]"

text \<open>
  \<open>ComprehensiveInvestmentAnalyzer.generate_recommendation\<close>: a cascade of early
  returns, the first matching rule wins.
\<close>

definition generate_recommendation :: "int \<Rightarrow> int \<Rightarrow> pyfloat \<Rightarrow> pyfloat \<Rightarrow> string" where
  "generate_recommendation composite piotroski altman graham_upside =
     (if fl_lt altman 1.5 then ''Avoid - High Bankruptcy Risk''
      else if piotroski \<le> 2 then ''Avoid - Weak Financials''
      else if composite \<ge> 75 \<and> piotroski \<ge> 7 \<and> fl_gt graham_upside 20 then ''Strong Buy''
      else if composite \<ge> 65 \<and> piotroski \<ge> 6 \<and> fl_gt graham_upside 0 then ''Buy''
      else if composite \<ge> 50 \<and> piotroski \<ge> 5 then ''Hold''
      else if composite \<ge> 35 then ''Weak Hold''
      else ''Sell / Avoid'')"

section \<open>Numeric helpers\<close>

datatype py_error = ZeroDivisionError | KeyError string

definition ebind :: "py_error + 'a \<Rightarrow> ('a \<Rightarrow> py_error + 'b) \<Rightarrow> py_error + 'b" where
  "ebind m f = (case m of Inl e \<Rightarrow> Inl e | Inr x \<Rightarrow> f x)"

text \<open>
  Float division raises \<open>ZeroDivisionError\<close> on a zero divisor.  Divisions by a non-zero
  literal (\<open>/ 20\<close>, \<open>/ 30\<close>, \<open>/ 10\<close>) cannot raise and are written with \<open>/\<close>.
\<close>

definition py_div :: "real \<Rightarrow> real \<Rightarrow> py_error + real" where
  "py_div a b = (if b = 0 then Inl ZeroDivisionError else Inr (a / b))"

text \<open>\<open>int(x)\<close> on a float truncates towards zero.\<close>

definition py_int :: "real \<Rightarrow> int" where
  "py_int x = (if x \<ge> 0 then \<lfloor>x\<rfloor> else \<lceil>x\<rceil>)"

text \<open>\<open>round(x, 2)\<close>: the nearest multiple of 0.01, a tie going to the even neighbour.\<close>

definition round_half_even :: "real \<Rightarrow> int" where
  "round_half_even x =
     (let f = \<lfloor>x\<rfloor>; d = x - of_int f
      in if d < 1 / 2 then f else if d > 1 / 2 then f + 1
         else if even f then f else f + 1)"

definition round2 :: "real \<Rightarrow> real" where
  "round2 x = of_int (round_half_even (x * 100)) / 100"

section \<open>Company records and numeric coercion\<close>

text \<open>
  A company record is a Python dict from field names to values.  A value is \<open>None\<close>, a
  string, a finite number, or some other object on which \<open>float()\<close> raises
  \<open>TypeError\<close>.
  The builtin \<open>float\<close> on strings belongs to the Python runtime, not to the repository:
  it is the parameter \<open>pf\<close> of the functions below, \<open>pf s = None\<close> when \<open>float(s)\<close>
  raises \<open>ValueError\<close>.
\<close>

datatype pyval = PyNone | PyStr string | PyNum real | PyOther

type_synonym pydict = "string \<rightharpoonup> pyval"

text \<open>\<open>s.replace(old, '')\<close> for a one-character \<open>old\<close>.\<close>

definition remove_char :: "char \<Rightarrow> string \<Rightarrow> string" where
  "remove_char c s = filter (\<lambda>x. x \<noteq> c) s"

text \<open>\<open>ComprehensiveInvestmentAnalyzer._get_float\<close>.\<close>

definition get_float :: "(string \<Rightarrow> real option) \<Rightarrow> pydict \<Rightarrow> string \<Rightarrow> real \<Rightarrow> real" where
  "get_float pf data key dflt =
     (case data key of
        None \<Rightarrow> dflt
      | Some PyNone \<Rightarrow> dflt
      | Some (PyStr s) \<Rightarrow>
          (case pf (remove_char CHR ''%'' (remove_char CHR '','' s)) of
             None \<Rightarrow> dflt
           | Some x \<Rightarrow> x)
      | Some (PyNum x) \<Rightarrow> x
      | Some PyOther \<Rightarrow> dflt)"

section \<open>Special scores (comprehensive\_analysis.py)\<close>

definition calculate_piotroski_f_score :: "(string \<Rightarrow> real option) \<Rightarrow> pydict \<Rightarrow> int" where
  "calculate_piotroski_f_score pf data =
     (let net_profit = get_float pf data ''net_profit'' 0;
          eps = get_float pf data ''eps'' 0;
          operating_cf = get_float pf data ''operating_cash_flow'' 0;
          roa = get_float pf data ''roa'' 0;
          roe = get_float pf data ''roe'' 0;
          debt_equity = get_float pf data ''debt_equity'' 1;
          current_ratio = get_float pf data ''current_ratio'' 1;
          gross_margin = get_float pf data ''gross_margin'' 0;
          asset_turnover = get_float pf data ''asset_turnover'' 0;
          s1 = (if net_profit > 0 \<or> eps > 0 then 1 else 0);
          s2 = (if operating_cf > 0 then 1 else 0);
          s3 = (if roa > 0 then 1 else 0);
          s4 = (if operating_cf > net_profit \<and> net_profit > 0 then 1
                else if operating_cf > 0 \<and> eps > 0 then 1 else 0);
          s5 = (if debt_equity < 0.5 then 1 else 0);
          s6 = (if current_ratio > 1.0 then 1 else 0);
          s7 = (if debt_equity < 1 \<and> roe > 10 then 1 else 0);
          s8 = (if gross_margin > 20 then 1 else 0);
          s9 = (if asset_turnover > 0.5 then 1 else 0)
      in min (s1 + s2 + s3 + s4 + s5 + s6 + s7 + s8 + s9) 9)"

definition calculate_altman_z_score :: "(string \<Rightarrow> real option) \<Rightarrow> pydict \<Rightarrow> py_error + real" where
  "calculate_altman_z_score pf data =
     (let total_assets = get_float pf data ''total_assets'' 1;
          total_liabilities = get_float pf data ''total_liabilities'' 0;
          market_cap = get_float pf data ''market_cap'' 0;
          revenue = get_float pf data ''revenue'' 0;
          shareholders_equity = get_float pf data ''shareholders_equity'' 0;
          current_ratio = get_float pf data ''current_ratio'' 1;
          operating_income = get_float pf data ''operating_income'' 0;
          net_profit = get_float pf data ''net_profit'' 0
      in if total_assets \<le> 0 then Inr 0
         else
           let working_capital_ratio = (current_ratio - 1) * 0.3;
               A = max (min working_capital_ratio 0.5) (- 0.3)
           in ebind (if shareholders_equity > 0
                     then ebind (py_div shareholders_equity total_assets) (\<lambda>q. Inr (q * 0.7))
                     else Inr 0) (\<lambda>B0.
              let B = max (min B0 0.5) 0
              in ebind (if operating_income > 0 then py_div operating_income total_assets
                        else if net_profit > 0
                        then ebind (py_div net_profit total_assets) (\<lambda>q. Inr (q * 1.3))
                        else Inr 0) (\<lambda>C0.
              let C = max (min C0 0.3) (- 0.1)
              in ebind (if total_liabilities > 0 then py_div market_cap total_liabilities
                        else Inr 5) (\<lambda>D0.
              let D = max (min D0 5) 0
              in ebind (if revenue > 0 then py_div revenue total_assets else Inr 0) (\<lambda>E0.
              let E = max (min E0 2) 0;
                  z_score = (1.2 * A) + (1.4 * B) + (3.3 * C) + (0.6 * D) + (1.0 * E)
              in Inr (round2 z_score))))))"

text \<open>\<open>(22.5 * eps * nav) ** 0.5\<close> is the square root; the argument is positive there.\<close>

definition calculate_graham_number :: "(string \<Rightarrow> real option) \<Rightarrow> pydict \<Rightarrow> real" where
  "calculate_graham_number pf data =
     (let eps = get_float pf data ''eps'' 0;
          nav = get_float pf data ''nav'' 0
      in if eps > 0 \<and> nav > 0
         then (let graham_number = sqrt (22.5 * eps * nav) in round2 graham_number)
         else 0)"

definition calculate_graham_upside ::
  "(string \<Rightarrow> real option) \<Rightarrow> pydict \<Rightarrow> real option \<Rightarrow> py_error + real" where
  "calculate_graham_upside pf data graham_number_opt =
     (let graham_number = (case graham_number_opt of
                             None \<Rightarrow> calculate_graham_number pf data
                           | Some g \<Rightarrow> g);
          price = get_float pf data ''last_traded_price'' 0
      in if price > 0 \<and> graham_number > 0
         then ebind (py_div (graham_number - price) price) (\<lambda>q.
              let upside = q * 100 in Inr (round2 upside))
         else Inr 0)"

definition calculate_magic_formula_rank :: "(string \<Rightarrow> real option) \<Rightarrow> pydict \<Rightarrow> py_error + int" where
  "calculate_magic_formula_rank pf data =
     (let pe = get_float pf data ''pe_ratio'' 20
      in ebind (if pe > 0 then ebind (py_div 1 pe) (\<lambda>q. Inr (q * 100)) else Inr 0)
           (\<lambda>earnings_yield.
         let roe = get_float pf data ''roe'' 10;
             debt_equity = get_float pf data ''debt_equity'' 0.5
         in ebind (if debt_equity > 0 then py_div roe (1 + debt_equity) else Inr roe) (\<lambda>roc.
            let ey_score = min earnings_yield 20 / 20 * 50;
                roc_score = min roc 30 / 30 * 50;
                total_score = ey_score + roc_score;
                rank = 100 - py_int total_score
            in Inr (max 1 (min rank 100)))))"

section \<open>The six sub-scores (comprehensive\_analysis.py)\<close>

text \<open>
  Each function starts from \<open>score = 0\<close>, adds the points of one \<open>if/elif\<close> ladder per
  component and returns \<open>min(score, 100)\<close>.  The components are named after the comments
  of the source.
\<close>

definition calculate_quality_score :: "(string \<Rightarrow> real option) \<Rightarrow> pydict \<Rightarrow> int" where
  "calculate_quality_score pf data =
     (let roe = get_float pf data ''roe'' 0;
          roa = get_float pf data ''roa'' 0;
          gross_margin = get_float pf data ''gross_margin'' 0;
          net_margin = get_float pf data ''net_margin'' 0;
          asset_turnover = get_float pf data ''asset_turnover'' 0;
          roe_component =
            (if roe \<ge> 25 then 30 else if roe \<ge> 20 then 25 else if roe \<ge> 15 then 20
             else if roe \<ge> 10 then 15 else if roe \<ge> 5 then 10 else if roe > 0 then 5
             else 0);
          roa_component =
            (if roa \<ge> 15 then 20 else if roa \<ge> 10 then 15 else if roa \<ge> 7 then 10
             else if roa \<ge> 5 then 7 else if roa > 0 then 3 else 0);
          gross_margin_component =
            (if gross_margin \<ge> 40 then 20 else if gross_margin \<ge> 30 then 15
             else if gross_margin \<ge> 20 then 10 else if gross_margin \<ge> 15 then 5 else 0);
          net_margin_component =
            (if net_margin \<ge> 20 then 20 else if net_margin \<ge> 15 then 15
             else if net_margin \<ge> 10 then 10 else if net_margin \<ge> 5 then 5 else 0);
          asset_turnover_component =
            (if asset_turnover \<ge> 1.5 then 10 else if asset_turnover \<ge> 1.0 then 7
             else if asset_turnover \<ge> 0.5 then 4 else 0);
          score = 0 + roe_component + roa_component + gross_margin_component
                    + net_margin_component + asset_turnover_component
      in min score 100)"

definition calculate_safety_score :: "(string \<Rightarrow> real option) \<Rightarrow> pydict \<Rightarrow> int" where
  "calculate_safety_score pf data =
     (let debt_equity = get_float pf data ''debt_equity'' 1;
          current_ratio = get_float pf data ''current_ratio'' 1;
          eps = get_float pf data ''eps'' 0;
          debt_equity_component =
            (if debt_equity \<le> 0.2 then 40 else if debt_equity \<le> 0.3 then 35
             else if debt_equity \<le> 0.5 then 30 else if debt_equity \<le> 0.7 then 25
             else if debt_equity \<le> 1.0 then 20 else if debt_equity \<le> 1.5 then 10 else 0);
          current_ratio_component =
            (if current_ratio \<ge> 2.5 then 30 else if current_ratio \<ge> 2.0 then 25
             else if current_ratio \<ge> 1.5 then 20 else if current_ratio \<ge> 1.2 then 15
             else if current_ratio \<ge> 1.0 then 10 else if current_ratio \<ge> 0.8 then 5
             else 0);
          earnings_component =
            (if eps > 10 then 30 else if eps > 5 then 25 else if eps > 2 then 20
             else if eps > 0 then 15 else 0);
          score = 0 + debt_equity_component + current_ratio_component + earnings_component
      in min score 100)"

definition calculate_value_score :: "(string \<Rightarrow> real option) \<Rightarrow> pydict \<Rightarrow> int" where
  "calculate_value_score pf data =
     (let pe = get_float pf data ''pe_ratio'' 30;
          pb = get_float pf data ''pb_ratio'' 3;
          div_yield = get_float pf data ''dividend_yield'' 0;
          pe_component =
            (if 0 < pe \<and> pe \<le> 8 then 35 else if pe \<le> 10 then 30 else if pe \<le> 12 then 25
             else if pe \<le> 15 then 20 else if pe \<le> 20 then 15 else if pe \<le> 25 then 10
             else if pe \<le> 30 then 5 else 0);
          pb_component =
            (if 0 < pb \<and> pb \<le> 0.7 then 35 else if pb \<le> 1.0 then 30
             else if pb \<le> 1.2 then 25 else if pb \<le> 1.5 then 20 else if pb \<le> 2.0 then 15
             else if pb \<le> 2.5 then 10 else if pb \<le> 3.0 then 5 else 0);
          dividend_yield_component =
            (if div_yield \<ge> 8 then 30 else if div_yield \<ge> 6 then 25
             else if div_yield \<ge> 5 then 20 else if div_yield \<ge> 4 then 15
             else if div_yield \<ge> 3 then 10 else if div_yield \<ge> 2 then 5 else 0);
          score = 0 + pe_component + pb_component + dividend_yield_component
      in min score 100)"

definition calculate_dividend_score :: "(string \<Rightarrow> real option) \<Rightarrow> pydict \<Rightarrow> py_error + int" where
  "calculate_dividend_score pf data =
     (let div_yield = get_float pf data ''dividend_yield'' 0;
          dps = get_float pf data ''dividend_per_share'' 0;
          eps = get_float pf data ''eps'' 0
      in ebind (if eps > 0 \<and> dps > 0 then ebind (py_div dps eps) (\<lambda>q. Inr (q * 100))
                else Inr 0) (\<lambda>payout_ratio.
         let dividend_yield_component =
               (if div_yield \<ge> 8 then 50 else if div_yield \<ge> 6 then 45
                else if div_yield \<ge> 5 then 40 else if div_yield \<ge> 4 then 35
                else if div_yield \<ge> 3 then 25 else if div_yield \<ge> 2 then 15
                else if div_yield \<ge> 1 then 5 else 0);
             payout_ratio_component =
               (if 30 \<le> payout_ratio \<and> payout_ratio \<le> 50 then 30
                else if 20 \<le> payout_ratio \<and> payout_ratio \<le> 60 then 25
                else if 10 \<le> payout_ratio \<and> payout_ratio \<le> 70 then 20
                else if payout_ratio > 70 \<and> payout_ratio \<le> 80 then 10
                else if payout_ratio > 0 then 5 else 0);
             has_dividend_component = (if div_yield > 0 \<and> dps > 0 then 20 else 0);
             score = 0 + dividend_yield_component + payout_ratio_component
                       + has_dividend_component
         in Inr (min score 100)))"

definition calculate_growth_score :: "(string \<Rightarrow> real option) \<Rightarrow> pydict \<Rightarrow> py_error + int" where
  "calculate_growth_score pf data =
     (let roe = get_float pf data ''roe'' 0;
          pe = get_float pf data ''pe_ratio'' 20;
          div_yield = get_float pf data ''dividend_yield'' 0;
          dps = get_float pf data ''dividend_per_share'' 0;
          eps = get_float pf data ''eps'' 0
      in ebind (if eps > 0 \<and> dps > 0 then py_div dps eps else Inr 0.5) (\<lambda>payout_ratio.
         let retention_ratio = 1 - payout_ratio;
             sustainable_growth = (if roe > 0 then roe * retention_ratio else 0);
             roe_component =
               (if roe \<ge> 25 then 35 else if roe \<ge> 20 then 30 else if roe \<ge> 15 then 25
                else if roe \<ge> 12 then 20 else if roe \<ge> 10 then 15 else if roe \<ge> 5 then 10
                else 0);
             sustainable_growth_component =
               (if sustainable_growth \<ge> 20 then 35 else if sustainable_growth \<ge> 15 then 30
                else if sustainable_growth \<ge> 12 then 25
                else if sustainable_growth \<ge> 10 then 20
                else if sustainable_growth \<ge> 8 then 15
                else if sustainable_growth \<ge> 5 then 10 else 0)
         in ebind (if sustainable_growth > 0 then py_div pe (max sustainable_growth 5)
                   else Inr (pe / 10)) (\<lambda>peg_proxy.
            let peg_component =
                  (if peg_proxy \<le> 0.5 then 30 else if peg_proxy \<le> 1.0 then 25
                   else if peg_proxy \<le> 1.5 then 20 else if peg_proxy \<le> 2.0 then 15
                   else if peg_proxy \<le> 2.5 then 10 else 0);
                score = 0 + roe_component + sustainable_growth_component + peg_component
            in Inr (min score 100))))"

definition calculate_momentum_score :: "(string \<Rightarrow> real option) \<Rightarrow> pydict \<Rightarrow> py_error + int" where
  "calculate_momentum_score pf data =
     (let price = get_float pf data ''last_traded_price'' 0;
          high_52 = get_float pf data ''52_week_high'' (price * 1.2);
          low_52 = get_float pf data ''52_week_low'' (price * 0.8);
          change_pct = get_float pf data ''change_percent'' 0
      in ebind (if high_52 > low_52
                then ebind (py_div (price - low_52) (high_52 - low_52)) (\<lambda>q.
                     let position = q * 100
                     in Inr (if 40 \<le> position \<and> position \<le> 60 then 50
                             else if 30 \<le> position \<and> position \<le> 70 then 40
                             else if 20 \<le> position \<and> position \<le> 80 then 30
                             else if position \<le> 20 then 35
                             else if position \<ge> 80 then 20 else 0))
                else Inr 0) (\<lambda>range_component.
         let recent_component =
               (if change_pct \<ge> 3 then 30 else if change_pct \<ge> 2 then 25
                else if change_pct \<ge> 1 then 20 else if change_pct \<ge> 0 then 15
                else if change_pct \<ge> - 1 then 10 else if change_pct \<ge> - 2 then 5 else 0)
         in ebind (if high_52 > 0
                   then ebind (py_div (high_52 - price) high_52) (\<lambda>q.
                        let discount = q * 100
                        in Inr (if 20 \<le> discount \<and> discount \<le> 40 then 20
                                else if 10 \<le> discount \<and> discount \<le> 50 then 15
                                else if discount < 10 then 10
                                else if discount > 50 then 5 else 0))
                   else Inr 0) (\<lambda>discount_component.
            let score = 0 + range_component + recent_component + discount_component
            in Inr (min score 100))))"

section \<open>Composite score and the full analysis\<close>

text \<open>
  \<open>calculate_composite_score(**scores)\<close>: the keyword arguments are a dict from names to
  integer scores; a missing name counts as 50.  \<open>sum\<close> runs over the weights in the
  order of the dict literal.
\<close>

definition weights :: "(string \<times> real) list" where
  "weights = [(''value'', 0.25), (''quality'', 0.25), (''safety'', 0.20),
              (''dividend'', 0.15), (''growth'', 0.10), (''momentum'', 0.05)]"

definition calculate_composite_score :: "(string \<rightharpoonup> int) \<Rightarrow> int" where
  "calculate_composite_score scores =
     (let composite =
            sum_list (map (\<lambda>(key, weight).
                        real_of_int (case scores key of None \<Rightarrow> 50 | Some v \<Rightarrow> v) * weight)
                      weights)
      in py_int (min composite 100))"

text \<open>
  The keyword arguments \<open>value=..., quality=..., safety=..., dividend=..., growth=...,
  momentum=...\<close> of the call in \<open>analyze_company\<close>, as the dict that \<open>**scores\<close>
  receives.
\<close>

definition score_args :: "int \<Rightarrow> int \<Rightarrow> int \<Rightarrow> int \<Rightarrow> int \<Rightarrow> int \<Rightarrow> (string \<rightharpoonup> int)" where
  "score_args v q s d g m =
     [''value'' \<mapsto> v, ''quality'' \<mapsto> q, ''safety'' \<mapsto> s, ''dividend'' \<mapsto> d,
      ''growth'' \<mapsto> g, ''momentum'' \<mapsto> m]"

record InvestmentScores =
  piotroski_f_score :: int
  altman_z_score :: real
  graham_number :: real
  graham_upside :: real
  magic_formula_rank :: int
  quality_score :: int
  safety_score :: int
  value_score :: int
  dividend_score :: int
  growth_score :: int
  momentum_score :: int
  composite_score :: int
  investment_grade :: string
  recommendation :: string

definition analyze_company ::
  "(string \<Rightarrow> real option) \<Rightarrow> pydict \<Rightarrow> py_error + InvestmentScores" where
  "analyze_company pf data =
     (let piotroski = calculate_piotroski_f_score pf data
      in ebind (calculate_altman_z_score pf data) (\<lambda>altman.
         let graham = calculate_graham_number pf data
         in ebind (calculate_graham_upside pf data (Some graham)) (\<lambda>graham_upside.
            ebind (calculate_magic_formula_rank pf data) (\<lambda>magic_rank.
            let quality = calculate_quality_score pf data;
                safety = calculate_safety_score pf data;
                value = calculate_value_score pf data
            in ebind (calculate_dividend_score pf data) (\<lambda>dividend.
               ebind (calculate_growth_score pf data) (\<lambda>growth.
               ebind (calculate_momentum_score pf data) (\<lambda>momentum.
               let composite = calculate_composite_score
                     (score_args value quality safety dividend growth momentum);
                   grade = determine_grade composite piotroski (Fin altman);
                   recommendation = generate_recommendation composite piotroski
                                      (Fin altman) (Fin graham_upside)
               in Inr \<lparr>piotroski_f_score = piotroski,
                        altman_z_score = altman,
                        graham_number = graham,
                        graham_upside = graham_upside,
                        magic_formula_rank = magic_rank,
                        quality_score = quality,
                        safety_score = safety,
                        value_score = value,
                        dividend_score = dividend,
                        growth_score = growth,
                        momentum_score = momentum,
                        composite_score = composite,
                        investment_grade = grade,
                        recommendation = recommendation\<rparr>)))))))"

section \<open>Float arithmetic on table cells\<close>

text \<open>
  The cells of a pandas column are doubles, NaN and the infinities included.  numpy
  arithmetic never raises: a division by zero gives an infinity, or NaN for \<open>0 / 0\<close>.
  Signed zeros and overflow of finite values are not modelled.
\<close>

fun fl_neg :: "pyfloat \<Rightarrow> pyfloat" where
  "fl_neg (Fin x) = Fin (- x)"
| "fl_neg PInf = NInf"
| "fl_neg NInf = PInf"
| "fl_neg NaN = NaN"

fun fl_add :: "pyfloat \<Rightarrow> pyfloat \<Rightarrow> pyfloat" where
  "fl_add (Fin x) (Fin y) = Fin (x + y)"
| "fl_add NaN b = NaN"
| "fl_add a NaN = NaN"
| "fl_add PInf NInf = NaN"
| "fl_add NInf PInf = NaN"
| "fl_add PInf b = PInf"
| "fl_add NInf b = NInf"
| "fl_add a PInf = PInf"
| "fl_add a NInf = NInf"

definition fl_sub :: "pyfloat \<Rightarrow> pyfloat \<Rightarrow> pyfloat" where
  "fl_sub a b = fl_add a (fl_neg b)"

fun fl_mul :: "pyfloat \<Rightarrow> pyfloat \<Rightarrow> pyfloat" where
  "fl_mul (Fin x) (Fin y) = Fin (x * y)"
| "fl_mul NaN b = NaN"
| "fl_mul a NaN = NaN"
| "fl_mul PInf PInf = PInf"
| "fl_mul PInf NInf = NInf"
| "fl_mul NInf PInf = NInf"
| "fl_mul NInf NInf = PInf"
| "fl_mul PInf (Fin y) = (if y = 0 then NaN else if y > 0 then PInf else NInf)"
| "fl_mul NInf (Fin y) = (if y = 0 then NaN else if y > 0 then NInf else PInf)"
| "fl_mul (Fin x) PInf = (if x = 0 then NaN else if x > 0 then PInf else NInf)"
| "fl_mul (Fin x) NInf = (if x = 0 then NaN else if x > 0 then NInf else PInf)"

fun fl_div :: "pyfloat \<Rightarrow> pyfloat \<Rightarrow> pyfloat" where
  "fl_div (Fin x) (Fin y) =
     (if y \<noteq> 0 then Fin (x / y)
      else if x = 0 then NaN else if x > 0 then PInf else NInf)"
| "fl_div NaN b = NaN"
| "fl_div a NaN = NaN"
| "fl_div (Fin x) PInf = Fin 0"
| "fl_div (Fin x) NInf = Fin 0"
| "fl_div PInf (Fin y) = (if y \<ge> 0 then PInf else NInf)"
| "fl_div NInf (Fin y) = (if y \<ge> 0 then NInf else PInf)"
| "fl_div PInf b = NaN"
| "fl_div NInf b = NaN"

fun fl_abs :: "pyfloat \<Rightarrow> pyfloat" where
  "fl_abs (Fin x) = Fin \<bar>x\<bar>"
| "fl_abs PInf = PInf"
| "fl_abs NInf = PInf"
| "fl_abs NaN = NaN"

fun fl_ge :: "pyfloat \<Rightarrow> real \<Rightarrow> bool" where
  "fl_ge (Fin x) c = (x \<ge> c)"
| "fl_ge PInf c = True"
| "fl_ge NInf c = False"
| "fl_ge NaN c = False"

fun fl_le :: "pyfloat \<Rightarrow> real \<Rightarrow> bool" where
  "fl_le (Fin x) c = (x \<le> c)"
| "fl_le NInf c = True"
| "fl_le PInf c = False"
| "fl_le NaN c = False"

fun fl_eq :: "pyfloat \<Rightarrow> real \<Rightarrow> bool" where
  "fl_eq (Fin x) c = (x = c)"
| "fl_eq PInf c = False"
| "fl_eq NInf c = False"
| "fl_eq NaN c = False"

text \<open>\<open>Series.notna()\<close>: NaN is missing, an infinity is not.\<close>

fun notna :: "pyfloat \<Rightarrow> bool" where
  "notna NaN = False"
| "notna (Fin x) = True"
| "notna PInf = True"
| "notna NInf = True"

text \<open>\<open>Series.clip(lower, upper)\<close> leaves NaN alone.\<close>

fun clip :: "real \<Rightarrow> real \<Rightarrow> pyfloat \<Rightarrow> pyfloat" where
  "clip lower upper (Fin x) = Fin (min (max x lower) upper)"
| "clip lower upper PInf = Fin upper"
| "clip lower upper NInf = Fin lower"
| "clip lower upper NaN = NaN"

section \<open>Tables\<close>

text \<open>
  A \<open>DataFrame\<close> restricted to numeric columns: the list of column names and the rows,
  each row giving a cell for every column of the frame.  A row that lacks a cell of one of
  the columns does not occur in a frame; reading such a cell gives NaN.
\<close>

type_synonym row = "string \<rightharpoonup> pyfloat"

record DataFrame =
  columns :: "string list"
  rows :: "row list"

definition empty_frame :: DataFrame where
  "empty_frame = \<lparr>columns = [], rows = []\<rparr>"

text \<open>\<open>df.empty\<close>: one of the two axes has length 0.\<close>

definition df_empty :: "DataFrame \<Rightarrow> bool" where
  "df_empty df = (columns df = [] \<or> rows df = [])"

definition cell_of :: "row \<Rightarrow> string \<Rightarrow> pyfloat" where
  "cell_of r col = (case r col of Some v \<Rightarrow> v | None \<Rightarrow> NaN)"

text \<open>\<open>df.get(col, default)\<close>, read at one row: the cell, or the scalar default when the
  frame has no such column.\<close>

definition df_get :: "DataFrame \<Rightarrow> row \<Rightarrow> string \<Rightarrow> real \<Rightarrow> pyfloat" where
  "df_get df r col dflt = (if col \<in> set (columns df) then cell_of r col else Fin dflt)"

text \<open>\<open>df[col] = values\<close>: a new column is appended, an existing one is overwritten.\<close>

definition assign :: "DataFrame \<Rightarrow> string \<Rightarrow> (row \<Rightarrow> pyfloat) \<Rightarrow> DataFrame" where
  "assign df col f =
     \<lparr>columns = (if col \<in> set (columns df) then columns df else columns df @ [col]),
      rows = map (\<lambda>r. r(col \<mapsto> f r)) (rows df)\<rparr>"

text \<open>\<open>df.loc[mask, col] += c\<close>.\<close>

definition loc_add :: "DataFrame \<Rightarrow> (row \<Rightarrow> bool) \<Rightarrow> string \<Rightarrow> real \<Rightarrow> DataFrame" where
  "loc_add df row_mask col c =
     df\<lparr>rows := map (\<lambda>r. if row_mask r then r(col \<mapsto> fl_add (cell_of r col) (Fin c)) else r)
                    (rows df)\<rparr>"

text \<open>\<open>np.where(cond, a, b)\<close> at one row.\<close>

definition np_where :: "bool \<Rightarrow> pyfloat \<Rightarrow> pyfloat \<Rightarrow> pyfloat" where
  "np_where cond a b = (if cond then a else b)"

section \<open>Quality metrics (advanced\_metrics.py)\<close>

text \<open>
  The assignment of \<open>fcf_to_net_income\<close> in \<open>_calculate_cashflow_metrics\<close>, which
  \<open>_calculate_quality_metrics\<close> reads.  \<open>df['net_profit']\<close> raises \<open>KeyError\<close> when the
  frame has no such column, whatever the condition of \<open>np.where\<close> is.
\<close>

definition assign_fcf_to_net_income :: "DataFrame \<Rightarrow> py_error + DataFrame" where
  "assign_fcf_to_net_income df =
     (if ''net_profit'' \<notin> set (columns df) then Inl (KeyError ''net_profit'')
      else Inr (assign df ''fcf_to_net_income'' (\<lambda>r.
             np_where (fl_gt (df_get df r ''net_profit'' 0) 0)
               (fl_mul (fl_div (df_get df r ''free_cash_flow'' 0) (cell_of r ''net_profit''))
                       (Fin 100))
               (Fin 0))))"

text \<open>\<open>AdvancedMetricsCalculator._calculate_quality_metrics\<close>.\<close>

definition calculate_quality_metrics :: "DataFrame \<Rightarrow> py_error + DataFrame" where
  "calculate_quality_metrics df =
     (if ''total_assets'' \<notin> set (columns df) then Inl (KeyError ''total_assets'')
      else
        let df1 = assign df ''accruals_ratio'' (\<lambda>r.
                    np_where (fl_gt (df_get df r ''total_assets'' 0) 0)
                      (fl_div (fl_sub (df_get df r ''net_profit'' 0)
                                      (df_get df r ''operating_cash_flow'' 0))
                              (cell_of r ''total_assets''))
                      (Fin 0));
            df2 = assign df1 ''sloan_ratio'' (\<lambda>r. cell_of r ''accruals_ratio'');
            df3 = assign df2 ''earnings_quality'' (\<lambda>r. Fin 50)
        in if ''fcf_to_net_income'' \<notin> set (columns df3)
           then Inl (KeyError ''fcf_to_net_income'')
           else
             let df4 = loc_add df3 (\<lambda>r. fl_gt (cell_of r ''fcf_to_net_income'') 80)
                         ''earnings_quality'' 20;
                 df5 = loc_add df4 (\<lambda>r. fl_gt (cell_of r ''fcf_to_net_income'') 100)
                         ''earnings_quality'' 10;
                 df6 = loc_add df5 (\<lambda>r. fl_lt (fl_abs (cell_of r ''accruals_ratio'')) 0.05)
                         ''earnings_quality'' 15;
                 df7 = loc_add df6 (\<lambda>r. fl_lt (fl_abs (cell_of r ''accruals_ratio'')) 0.02)
                         ''earnings_quality'' 5;
                 df8 = assign df7 ''earnings_quality''
                         (\<lambda>r. clip 0 100 (cell_of r ''earnings_quality''))
             in Inr df8)"

section \<open>Screening (screeners.py)\<close>

text \<open>
  \<open>ScreeningCriteria\<close>: \<open>value2\<close> is \<open>None\<close> unless given.  The field \<open>value\<close> is named
  \<open>crit_value\<close> here.
\<close>

record ScreeningCriteria =
  crit_name :: string
  column :: string
  operator :: string
  crit_value :: real
  crit_value2 :: "real option"
  weight :: real

text \<open>
  A comparison of a column with the scalar \<open>None\<close> is false in every row (pandas compares
  with a missing scalar element by element, without raising).
\<close>

definition le_value2 :: "pyfloat \<Rightarrow> real option \<Rightarrow> bool" where
  "le_value2 v value2 = (case value2 of None \<Rightarrow> False | Some hi \<Rightarrow> fl_le v hi)"

text \<open>\<open>StockScreener._apply_criterion\<close>.\<close>

definition apply_criterion :: "DataFrame \<Rightarrow> ScreeningCriteria \<Rightarrow> DataFrame" where
  "apply_criterion df criterion =
     (let col = column criterion
      in if col \<notin> set (columns df) then df
         else
           let valid_mask = (\<lambda>r. notna (cell_of r col));
               mask =
                 (if operator criterion = ''gt''
                    then (\<lambda>r. valid_mask r \<and> fl_gt (cell_of r col) (crit_value criterion))
                  else if operator criterion = ''lt''
                    then (\<lambda>r. valid_mask r \<and> fl_lt (cell_of r col) (crit_value criterion))
                  else if operator criterion = ''gte''
                    then (\<lambda>r. valid_mask r \<and> fl_ge (cell_of r col) (crit_value criterion))
                  else if operator criterion = ''lte''
                    then (\<lambda>r. valid_mask r \<and> fl_le (cell_of r col) (crit_value criterion))
                  else if operator criterion = ''eq''
                    then (\<lambda>r. valid_mask r \<and> fl_eq (cell_of r col) (crit_value criterion))
                  else if operator criterion = ''between''
                    then (\<lambda>r. valid_mask r \<and> fl_ge (cell_of r col) (crit_value criterion)
                                \<and> le_value2 (cell_of r col) (crit_value2 criterion))
                  else valid_mask)
           in df\<lparr>rows := filter mask (rows df)\<rparr>)"

text \<open>The mask of \<open>_apply_criterion\<close>, for a column that the frame has.\<close>

definition criterion_mask :: "ScreeningCriteria \<Rightarrow> row \<Rightarrow> bool" where
  "criterion_mask c r =
     (notna (cell_of r (column c)) \<and>
      (if operator c = ''gt'' then fl_gt (cell_of r (column c)) (crit_value c)
       else if operator c = ''lt'' then fl_lt (cell_of r (column c)) (crit_value c)
       else if operator c = ''gte'' then fl_ge (cell_of r (column c)) (crit_value c)
       else if operator c = ''lte'' then fl_le (cell_of r (column c)) (crit_value c)
       else if operator c = ''eq'' then fl_eq (cell_of r (column c)) (crit_value c)
       else if operator c = ''between''
         then fl_ge (cell_of r (column c)) (crit_value c)
              \<and> le_value2 (cell_of r (column c)) (crit_value2 c)
       else True))"

text \<open>
  \<open>StockScreener.screen\<close>; the first argument is \<open>self.df\<close>, which may be \<open>None\<close>.  The
  loop over the criteria is a left fold.
\<close>

definition screen :: "DataFrame option \<Rightarrow> ScreeningCriteria list \<Rightarrow> DataFrame" where
  "screen self_df criteria =
     (case self_df of
        None \<Rightarrow> empty_frame
      | Some df \<Rightarrow> if df_empty df then empty_frame
                   else foldl apply_criterion df criteria)"

section \<open>The specification's reading of the claims\<close>

text \<open>
  The order of the grades: A is the best and F the worst.  The letters are ordered by
  their code points, which puts E between D and F.
\<close>

definition grade_rank :: "string \<Rightarrow> int" where
  "grade_rank g = (case g of [c] \<Rightarrow> py_ord c | _ \<Rightarrow> 0)"

text \<open>The weighted sum of the specification and its clamp to the interval from 0 to 100.\<close>

definition spec_weighted_sum :: "int \<Rightarrow> int \<Rightarrow> int \<Rightarrow> int \<Rightarrow> int \<Rightarrow> int \<Rightarrow> real" where
  "spec_weighted_sum v q s d g m =
     real_of_int v * 0.25 + real_of_int q * 0.25 + real_of_int s * 0.20
     + real_of_int d * 0.15 + real_of_int g * 0.10 + real_of_int m * 0.05"


text \<open>
  A field of a record is unusable when it is absent, \<open>None\<close>, or a string that \<open>float\<close>
  rejects after the separators are stripped.
\<close>

definition unusable :: "(string \<Rightarrow> real option) \<Rightarrow> pyval option \<Rightarrow> bool" where
  "unusable pf v =
     (case v of
        None \<Rightarrow> True
      | Some PyNone \<Rightarrow> True
      | Some (PyStr s) \<Rightarrow> pf (remove_char CHR ''%'' (remove_char CHR '','' s)) = None
      | Some (PyNum x) \<Rightarrow> False
      | Some PyOther \<Rightarrow> False)"

text \<open>
  A row satisfies a criterion when its cell in the criterion's column is present, is not
  NaN, and stands in the relation named by the operator.
\<close>

definition spec_satisfies :: "ScreeningCriteria \<Rightarrow> row \<Rightarrow> bool" where
  "spec_satisfies c r =
     (case r (column c) of
        None \<Rightarrow> False
      | Some v \<Rightarrow>
          v \<noteq> NaN \<and>
          (if operator c = ''gt'' then fl_gt v (crit_value c)
           else if operator c = ''lt'' then fl_lt v (crit_value c)
           else if operator c = ''gte'' then fl_ge v (crit_value c)
           else if operator c = ''lte'' then fl_le v (crit_value c)
           else if operator c = ''eq'' then fl_eq v (crit_value c)
           else if operator c = ''between''
             then fl_ge v (crit_value c) \<and> (\<exists>hi. crit_value2 c = Some hi \<and> fl_le v hi)
           else False))"

definition known_operator :: "string \<Rightarrow> bool" where
  "known_operator op = (op \<in> set [''gt'', ''lt'', ''gte'', ''lte'', ''eq'', ''between''])"

text \<open>Every row of the frame has a cell for every column.\<close>

definition well_formed :: "DataFrame \<Rightarrow> bool" where
  "well_formed df = (\<forall>r \<in> set (rows df). dom r = set (columns df))"

section \<open>Example inputs\<close>

text \<open>The record \<open>{"symbol": "TEST"}\<close>, and a \<open>float\<close> that rejects every string.\<close>

definition test_record :: pydict where
  "test_record = [''symbol'' \<mapsto> PyStr ''TEST'']"

definition reject_all :: "string \<Rightarrow> real option" where
  "reject_all s = None"

text \<open>
  A cheap, high-yield company in distress: the market capitalisation is half the
  liabilities.
\<close>

definition distressed_record :: pydict where
  "distressed_record =
     [''symbol'' \<mapsto> PyStr ''TEST'', ''pe_ratio'' \<mapsto> PyNum 8, ''pb_ratio'' \<mapsto> PyNum 0.7,
      ''dividend_yield'' \<mapsto> PyNum 8, ''total_assets'' \<mapsto> PyNum 100,
      ''total_liabilities'' \<mapsto> PyNum 100, ''market_cap'' \<mapsto> PyNum 50]"




text \<open>A frame with the single column \<open>eps\<close>, and criteria on \<open>pe_ratio\<close> and on \<open>eps\<close>.\<close>

definition eps_frame :: DataFrame where
  "eps_frame = \<lparr>columns = [''eps''], rows = [[''eps'' \<mapsto> Fin 1], [''eps'' \<mapsto> NaN],
                                               [''eps'' \<mapsto> Fin (- 2)]]\<rparr>"

definition low_pe :: ScreeningCriteria where
  "low_pe = \<lparr>crit_name = ''Low P/E'', column = ''pe_ratio'', operator = ''lt'',
             crit_value = 15, crit_value2 = None, weight = 1\<rparr>"

definition positive_eps :: ScreeningCriteria where
  "positive_eps = \<lparr>crit_name = ''Positive EPS'', column = ''eps'', operator = ''gt'',
                   crit_value = 0, crit_value2 = None, weight = 1\<rparr>"

section \<open>Properties of the grade and the recommendation\<close>

lemma py_chr_letters:
  "py_chr 65 = CHR ''A''" "py_chr 66 = CHR ''B''" "py_chr 67 = CHR ''C''"
  "py_chr 68 = CHR ''D''" "py_chr 69 = CHR ''E''" "py_chr 70 = CHR ''F''"
  by (simp_all add: py_chr_def char_of_def)

lemma py_ord_letters:
  "py_ord CHR ''A'' = 65" "py_ord CHR ''B'' = 66" "py_ord CHR ''C'' = 67"
  "py_ord CHR ''D'' = 68" "py_ord CHR ''E'' = 69" "py_ord CHR ''F'' = 70"
  by (simp_all add: py_ord_def)

lemma ladder_grade_cases:
  "ladder_grade c \<in> {CHR ''A'', CHR ''B'', CHR ''C'', CHR ''D'', CHR ''F''}"
  by (simp add: ladder_grade_def)

lemma ladder_grade_antimono:
  "c1 \<le> c2 \<Longrightarrow> py_ord (ladder_grade c2) \<le> py_ord (ladder_grade c1)"
  by (simp add: ladder_grade_def py_ord_letters)

lemma piotroski_adjust_cases:
  assumes "g \<in> {CHR ''A'', CHR ''B'', CHR ''C'', CHR ''D'', CHR ''F''}"
  shows "piotroski_adjust p g \<in> {CHR ''A'', CHR ''B'', CHR ''C'', CHR ''D'', CHR ''F''}"
  using assms by (auto simp add: piotroski_adjust_def py_chr_letters py_ord_letters)

lemma piotroski_adjust_mono:
  assumes "g1 \<in> {CHR ''A'', CHR ''B'', CHR ''C'', CHR ''D'', CHR ''F''}"
    and "g2 \<in> {CHR ''A'', CHR ''B'', CHR ''C'', CHR ''D'', CHR ''F''}"
    and "py_ord g2 \<le> py_ord g1"
  shows "py_ord (piotroski_adjust p g2) \<le> py_ord (piotroski_adjust p g1)"
  using assms by (auto simp add: piotroski_adjust_def py_chr_letters py_ord_letters)

lemma altman_adjust_mono:
  assumes "g1 \<in> {CHR ''A'', CHR ''B'', CHR ''C'', CHR ''D'', CHR ''F''}"
    and "g2 \<in> {CHR ''A'', CHR ''B'', CHR ''C'', CHR ''D'', CHR ''F''}"
    and "py_ord g2 \<le> py_ord g1"
  shows "py_ord (altman_adjust a g2) \<le> py_ord (altman_adjust a g1)"
  using assms by (auto simp add: altman_adjust_def py_chr_letters py_ord_letters)

lemma altman_adjust_cases:
  assumes "g \<in> {CHR ''A'', CHR ''B'', CHR ''C'', CHR ''D'', CHR ''F''}"
  shows "altman_adjust a g
           \<in> {CHR ''A'', CHR ''B'', CHR ''C'', CHR ''D'', CHR ''E'', CHR ''F''}"
  using assms by (auto simp add: altman_adjust_def py_chr_letters py_ord_letters)

text \<open>What holds of every grade: it is one of the six letters from A to F.\<close>

lemma determine_grade_six_letters:
  "determine_grade composite piotroski altman
     \<in> {''A'', ''B'', ''C'', ''D'', ''E'', ''F''}"
  using altman_adjust_cases [OF piotroski_adjust_cases [OF ladder_grade_cases],
      of altman piotroski composite]
  by (auto simp add: determine_grade_def)

text \<open>
  Claim C4.  When the Altman value is below 1.5, the recommendation is
  "Avoid - High Bankruptcy Risk", whatever the composite score, the Piotroski score and
  the Graham upside are.
\<close>

theorem recommendation_altman_first:
  assumes "fl_lt altman 1.5"
  shows "generate_recommendation composite piotroski altman upside
           = ''Avoid - High Bankruptcy Risk''"
  using assms by (simp add: generate_recommendation_def)

theorem recommendation_altman_first_witness:
  "fl_lt (Fin 1.49) 1.5 \<and>
   generate_recommendation 100 9 (Fin 1.49) (Fin 500) = ''Avoid - High Bankruptcy Risk''"
proof -
  have h: "fl_lt (Fin 1.49) 1.5" by simp
  show ?thesis using h recommendation_altman_first [OF h, of 100 9 "Fin 500"] by simp
qed

text \<open>
  Claim C5.  For fixed Piotroski and Altman values the grade is monotone in the composite
  score: a higher composite score never gives a worse letter.
\<close>

theorem determine_grade_monotone:
  assumes "composite1 \<le> composite2"
  shows "grade_rank (determine_grade composite2 piotroski altman)
           \<le> grade_rank (determine_grade composite1 piotroski altman)"
  unfolding determine_grade_def grade_rank_def list.case
  by (intro altman_adjust_mono piotroski_adjust_mono piotroski_adjust_cases
      ladder_grade_cases ladder_grade_antimono assms)

theorem determine_grade_monotone_witness:
  "(40::int) \<le> 70 \<and>
   grade_rank (determine_grade 70 5 (Fin 1)) \<le> grade_rank (determine_grade 40 5 (Fin 1)) \<and>
   determine_grade 70 5 (Fin 1) = ''C'' \<and> determine_grade 40 5 (Fin 1) = ''E''"
proof -
  have h: "(40::int) \<le> 70" by simp
  have "determine_grade 70 5 (Fin 1) = ''C''" "determine_grade 40 5 (Fin 1) = ''E''"
    by (simp_all add: determine_grade_def ladder_grade_def piotroski_adjust_def
        altman_adjust_def py_chr_letters py_ord_letters)
  with h determine_grade_monotone [OF h, of 5 "Fin 1"] show ?thesis by simp
qed

section \<open>Bounds of the sub-scores\<close>

lemma ebind_Inr: "ebind (Inr x) f = f x"
  by (simp add: ebind_def)










lemma graham_upside_total: "\<exists>u. calculate_graham_upside pf data g = Inr u"
  unfolding calculate_graham_upside_def Let_def
  by (auto simp add: py_div_def ebind_def)

lemma magic_rank_total: "\<exists>r. calculate_magic_formula_rank pf data = Inr r"
  unfolding calculate_magic_formula_rank_def Let_def
  by (auto simp add: py_div_def ebind_def)

section \<open>The composite score\<close>

lemma composite_explicit:
  "calculate_composite_score (score_args v q s d g m)
     = py_int (min (spec_weighted_sum v q s d g m) 100)"
  by (simp add: calculate_composite_score_def weights_def score_args_def
      spec_weighted_sum_def add.assoc)








section \<open>Rounding\<close>

lemma round_half_even_of_int: "round_half_even (of_int n) = n"
  by (simp add: round_half_even_def)




section \<open>The Graham number\<close>






section \<open>Records without usable fields\<close>

lemma get_float_unusable:
  assumes "unusable pf (data key)"
  shows "get_float pf data key dflt = dflt"
  using assms
  by (auto simp add: get_float_def unusable_def split: option.splits pyval.splits)

lemma round2_of_int: "round2 (of_int n) = of_int n"
proof -
  have "real_of_int n * 100 = real_of_int (n * 100)" by simp
  then have "round_half_even (real_of_int n * 100) = n * 100"
    by (simp only: round_half_even_of_int)
  then show ?thesis by (simp add: round2_def)
qed

lemma py_int_23: "py_int (850 / 36) = 23"
proof -
  have "\<lfloor>850 / 36 :: real\<rfloor> = 23" by (rule floor_unique) simp_all
  then show ?thesis by (simp add: py_int_def)
qed

text \<open>
  Claim C6.  When every field other than \<open>symbol\<close> is absent, \<open>None\<close> or a string that
  \<open>float\<close> rejects, \<open>analyze_company\<close> raises nothing and returns the scores computed
  from the defaults of \<open>_get_float\<close>.
\<close>

theorem analyze_company_defaults:
  assumes "\<forall>key. key \<noteq> ''symbol'' \<longrightarrow> unusable pf (data key)"
  shows "analyze_company pf data =
           Inr \<lparr>piotroski_f_score = 0,
                altman_z_score = 3,
                graham_number = 0,
                graham_upside = 0,
                magic_formula_rank = 77,
                quality_score = 0,
                safety_score = 30,
                value_score = 10,
                dividend_score = 0,
                growth_score = 15,
                momentum_score = 15,
                composite_score = 10,
                investment_grade = ''F'',
                recommendation = ''Avoid - Weak Financials''\<rparr>"
proof -
  have gf: "\<And>key dflt. key \<noteq> ''symbol'' \<Longrightarrow> get_float pf data key dflt = dflt"
    using assms by (simp add: get_float_unusable)
  have piotroski: "calculate_piotroski_f_score pf data = 0"
    by (simp add: calculate_piotroski_f_score_def gf)
  have "round2 3 = 3" using round2_of_int [of 3] by simp
  then have altman: "calculate_altman_z_score pf data = Inr 3"
    by (simp add: calculate_altman_z_score_def gf ebind_Inr)
  have graham: "calculate_graham_number pf data = 0"
    by (simp add: calculate_graham_number_def gf)
  have upside: "calculate_graham_upside pf data (Some 0) = Inr 0"
    by (simp add: calculate_graham_upside_def gf)
  have magic: "calculate_magic_formula_rank pf data = Inr 77"
    using py_int_23
    by (simp add: calculate_magic_formula_rank_def gf py_div_def ebind_Inr)
  have quality: "calculate_quality_score pf data = 0"
    by (simp add: calculate_quality_score_def gf)
  have safety: "calculate_safety_score pf data = 30"
    by (simp add: calculate_safety_score_def gf)
  have val: "calculate_value_score pf data = 10"
    by (simp add: calculate_value_score_def gf)
  have dividend: "calculate_dividend_score pf data = Inr 0"
    by (simp add: calculate_dividend_score_def gf ebind_Inr)
  have growth: "calculate_growth_score pf data = Inr 15"
    by (simp add: calculate_growth_score_def gf ebind_Inr)
  have momentum: "calculate_momentum_score pf data = Inr 15"
    by (simp add: calculate_momentum_score_def gf ebind_Inr)
  have "\<lfloor>10.75 :: real\<rfloor> = 10" by (rule floor_unique) simp_all
  then have composite: "calculate_composite_score (score_args 10 0 30 0 15 15) = 10"
    by (simp add: composite_explicit spec_weighted_sum_def py_int_def)
  have grade: "determine_grade 10 0 (Fin 3) = ''F''"
    by (simp add: determine_grade_def ladder_grade_def piotroski_adjust_def
        altman_adjust_def)
  have recommend: "generate_recommendation 10 0 (Fin 3) (Fin 0) = ''Avoid - Weak Financials''"
    by (simp add: generate_recommendation_def)
  show ?thesis
    unfolding analyze_company_def Let_def piotroski altman graham upside magic quality
      safety val dividend growth momentum ebind_Inr composite grade recommend
    by simp
qed

theorem analyze_company_defaults_witness:
  "\<exists>sc. analyze_company reject_all test_record = Inr sc \<and>
      value_score sc = 10 \<and> quality_score sc = 0 \<and> safety_score sc = 30 \<and>
      dividend_score sc = 0 \<and> growth_score sc = 15 \<and> momentum_score sc = 15 \<and>
      composite_score sc = 10 \<and> investment_grade sc = ''F'' \<and>
      recommendation sc = ''Avoid - Weak Financials''"
proof -
  have h: "\<forall>key. key \<noteq> ''symbol'' \<longrightarrow> unusable reject_all (test_record key)"
    by (simp add: test_record_def unusable_def)
  show ?thesis
    using h analyze_company_defaults [OF h] by simp
qed

section \<open>Screening\<close>

lemma notna_iff: "notna v \<longleftrightarrow> v \<noteq> NaN"
  by (cases v) simp_all

lemma le_value2_iff: "le_value2 v value2 \<longleftrightarrow> (\<exists>hi. value2 = Some hi \<and> fl_le v hi)"
  by (cases value2) (simp_all add: le_value2_def)

lemma apply_criterion_present:
  assumes "column c \<in> set (columns df)"
  shows "apply_criterion df c = df\<lparr>rows := filter (criterion_mask c) (rows df)\<rparr>"
proof -
  have "(if operator c = ''gt''
          then (\<lambda>r. notna (cell_of r (column c)) \<and> fl_gt (cell_of r (column c)) (crit_value c))
        else if operator c = ''lt''
          then (\<lambda>r. notna (cell_of r (column c)) \<and> fl_lt (cell_of r (column c)) (crit_value c))
        else if operator c = ''gte''
          then (\<lambda>r. notna (cell_of r (column c)) \<and> fl_ge (cell_of r (column c)) (crit_value c))
        else if operator c = ''lte''
          then (\<lambda>r. notna (cell_of r (column c)) \<and> fl_le (cell_of r (column c)) (crit_value c))
        else if operator c = ''eq''
          then (\<lambda>r. notna (cell_of r (column c)) \<and> fl_eq (cell_of r (column c)) (crit_value c))
        else if operator c = ''between''
          then (\<lambda>r. notna (cell_of r (column c)) \<and> fl_ge (cell_of r (column c)) (crit_value c)
                      \<and> le_value2 (cell_of r (column c)) (crit_value2 c))
        else (\<lambda>r. notna (cell_of r (column c)))) = criterion_mask c"
    by (rule ext) (simp add: criterion_mask_def)
  then show ?thesis
    using assms by (simp add: apply_criterion_def Let_def)
qed

lemma apply_criterion_absent:
  "column c \<notin> set (columns df) \<Longrightarrow> apply_criterion df c = df"
  by (simp add: apply_criterion_def Let_def)

lemma apply_criterion_filter:
  "apply_criterion df c
     = df\<lparr>rows := filter (\<lambda>r. column c \<in> set (columns df) \<longrightarrow> criterion_mask c r)
                       (rows df)\<rparr>"
  by (cases "column c \<in> set (columns df)")
    (simp_all add: apply_criterion_present apply_criterion_absent)

lemma foldl_apply_criterion:
  "foldl apply_criterion df cs
     = df\<lparr>rows := filter (\<lambda>r. \<forall>c \<in> set cs. column c \<in> set (columns df) \<longrightarrow>
                                 criterion_mask c r) (rows df)\<rparr>"
proof (induction cs arbitrary: df)
  case Nil
  then show ?case by simp
next
  case (Cons c cs)
  have "foldl apply_criterion df (c # cs) = foldl apply_criterion (apply_criterion df c) cs"
    by simp
  also have "\<dots> = (apply_criterion df c)\<lparr>rows :=
      filter (\<lambda>r. \<forall>c' \<in> set cs. column c' \<in> set (columns (apply_criterion df c)) \<longrightarrow>
                  criterion_mask c' r) (rows (apply_criterion df c))\<rparr>"
    by (rule Cons.IH)
  also have "\<dots> = df\<lparr>rows := filter (\<lambda>r. \<forall>c' \<in> set (c # cs).
      column c' \<in> set (columns df) \<longrightarrow> criterion_mask c' r) (rows df)\<rparr>"
    unfolding apply_criterion_filter [of df c]
    by (simp add: conj_commute)
  finally show ?case .
qed

lemma criterion_mask_spec:
  assumes "known_operator (operator c)"
  shows "criterion_mask c r \<longleftrightarrow> spec_satisfies c r"
proof (cases "r (column c)")
  case None
  then show ?thesis
    by (simp add: criterion_mask_def spec_satisfies_def cell_of_def)
next
  case (Some v)
  then show ?thesis
    using assms
    by (auto simp add: criterion_mask_def spec_satisfies_def cell_of_def notna_iff
        le_value2_iff known_operator_def)
qed

lemma rows_screen:
  "rows (screen self_df criteria) =
     (case self_df of
        None \<Rightarrow> []
      | Some df \<Rightarrow>
          if columns df = [] then []
          else filter (\<lambda>r. \<forall>c \<in> set criteria. column c \<in> set (columns df) \<longrightarrow>
                             criterion_mask c r) (rows df))"
  by (cases self_df)
    (auto simp add: screen_def empty_frame_def df_empty_def foldl_apply_criterion)

lemma screen_set_cong:
  assumes "set criteria' = set criteria"
  shows "screen self_df criteria' = screen self_df criteria"
  using assms by (cases self_df) (simp_all add: screen_def foldl_apply_criterion)

text \<open>
  Claim C9, as stated: \<open>screen\<close> returns exactly the rows that satisfy every criterion.
  It does not when a criterion names a column that the frame lacks: the criterion is then
  skipped.  The frame with the single column \<open>eps\<close> keeps all its three rows under the
  criterion \<open>pe_ratio < 15\<close>, and none of them has a \<open>pe_ratio\<close> cell to satisfy it.
\<close>

theorem screen_absent_column_counterexample:
  "rows (screen (Some eps_frame) [low_pe]) = rows eps_frame \<and>
   rows eps_frame \<noteq> [] \<and>
   filter (spec_satisfies low_pe) (rows eps_frame) = []"
  by (simp add: screen_def df_empty_def eps_frame_def low_pe_def apply_criterion_def
      spec_satisfies_def)

text \<open>
  Claim C9, amended.  For criteria over the operators gt, lt, gte, lte, eq and between,
  \<open>screen\<close> on a frame with at least one column returns, in their order, exactly the rows
  that satisfy every criterion whose column the frame has; a criterion on an absent column
  is skipped, a NaN cell satisfies no criterion, and a frame without columns (or no frame)
  gives the empty frame.  Criteria lists that are permutations of each other give the same
  frame.
\<close>

theorem screen_conjunction:
  assumes "\<forall>c \<in> set criteria. known_operator (operator c)"
  shows "rows (screen self_df criteria) =
           (case self_df of
              None \<Rightarrow> []
            | Some df \<Rightarrow>
                if columns df = [] then []
                else filter (\<lambda>r. \<forall>c \<in> set criteria. column c \<in> set (columns df) \<longrightarrow>
                                   spec_satisfies c r) (rows df)) \<and>
         (\<forall>criteria'. mset criteria' = mset criteria \<longrightarrow>
            screen self_df criteria' = screen self_df criteria)"
proof
  show "rows (screen self_df criteria) =
           (case self_df of
              None \<Rightarrow> []
            | Some df \<Rightarrow>
                if columns df = [] then []
                else filter (\<lambda>r. \<forall>c \<in> set criteria. column c \<in> set (columns df) \<longrightarrow>
                                   spec_satisfies c r) (rows df))"
  proof (cases self_df)
    case None
    then show ?thesis by (simp add: rows_screen)
  next
    case (Some df)
    have "filter (\<lambda>r. \<forall>c \<in> set criteria. column c \<in> set (columns df) \<longrightarrow>
                        criterion_mask c r) (rows df)
        = filter (\<lambda>r. \<forall>c \<in> set criteria. column c \<in> set (columns df) \<longrightarrow>
                        spec_satisfies c r) (rows df)"
      using assms by (intro filter_cong refl) (simp add: criterion_mask_spec)
    then show ?thesis using Some by (simp add: rows_screen)
  qed
  show "\<forall>criteria'. mset criteria' = mset criteria \<longrightarrow>
            screen self_df criteria' = screen self_df criteria"
  proof (intro allI impI)
    fix criteria'
    assume "mset criteria' = mset criteria"
    then have "set criteria' = set criteria" by (rule mset_eq_setD)
    then show "screen self_df criteria' = screen self_df criteria"
      by (rule screen_set_cong)
  qed
qed

theorem screen_conjunction_witness:
  "known_operator (operator low_pe) \<and> known_operator (operator positive_eps) \<and>
   rows (screen (Some eps_frame) [low_pe, positive_eps]) = [[''eps'' \<mapsto> Fin 1]] \<and>
   screen (Some eps_frame) [positive_eps, low_pe]
     = screen (Some eps_frame) [low_pe, positive_eps]"
proof -
  have h: "\<forall>c \<in> set [low_pe, positive_eps]. known_operator (operator c)"
    by (simp add: low_pe_def positive_eps_def known_operator_def)
  have m: "mset [positive_eps, low_pe] = mset [low_pe, positive_eps]"
    by (simp add: add.commute)
  have pe: "column low_pe \<notin> set (columns eps_frame)"
    by (simp add: low_pe_def eps_frame_def)
  have ep: "column positive_eps \<in> set (columns eps_frame)"
    by (simp add: positive_eps_def eps_frame_def)
  have sat: "spec_satisfies positive_eps [''eps'' \<mapsto> Fin 1]"
    "\<not> spec_satisfies positive_eps [''eps'' \<mapsto> NaN]"
    "\<not> spec_satisfies positive_eps [''eps'' \<mapsto> Fin (- 2)]"
    by (simp_all add: positive_eps_def spec_satisfies_def)
  have rs: "rows eps_frame = [[''eps'' \<mapsto> Fin 1], [''eps'' \<mapsto> NaN], [''eps'' \<mapsto> Fin (- 2)]]"
    by (simp add: eps_frame_def)
  have f: "filter (\<lambda>r. \<forall>c \<in> set [low_pe, positive_eps].
             column c \<in> set (columns eps_frame) \<longrightarrow> spec_satisfies c r) (rows eps_frame)
           = [[''eps'' \<mapsto> Fin 1]]"
    unfolding rs using pe ep sat by simp
  have c: "columns eps_frame \<noteq> []" by (simp add: eps_frame_def)
  note t = screen_conjunction [OF h, of "Some eps_frame"]
  have r: "rows (screen (Some eps_frame) [low_pe, positive_eps]) = [[''eps'' \<mapsto> Fin 1]]"
    using conjunct1 [OF t] c f by (simp only: option.case if_False)
  have p: "screen (Some eps_frame) [positive_eps, low_pe]
             = screen (Some eps_frame) [low_pe, positive_eps]"
    using conjunct2 [OF t] m by blast
  show ?thesis using h r p by simp
qed

text \<open>
  Claim C10.  A criterion whose column is not a column of the frame leaves the frame as it
  is: \<open>_apply_criterion\<close> returns the frame it was given, and \<open>screen\<close> with such a
  criterion returns a frame that is not empty unchanged.
\<close>

theorem apply_criterion_absent_column:
  assumes "column criterion \<notin> set (columns df)"
  shows "apply_criterion df criterion = df \<and>
         (\<not> df_empty df \<longrightarrow> screen (Some df) [criterion] = df)"
  using assms by (simp add: apply_criterion_def Let_def screen_def)

theorem apply_criterion_absent_column_witness:
  "column low_pe \<notin> set (columns eps_frame) \<and> \<not> df_empty eps_frame \<and>
   apply_criterion eps_frame low_pe = eps_frame \<and>
   screen (Some eps_frame) [low_pe] = eps_frame"
proof -
  have h: "column low_pe \<notin> set (columns eps_frame)"
    by (simp add: low_pe_def eps_frame_def)
  have e: "\<not> df_empty eps_frame"
    by (simp add: df_empty_def eps_frame_def)
  show ?thesis
    using h e apply_criterion_absent_column [OF h] by simp
qed

section \<open>Quality metrics\<close>


lemma rows_assign: "rows (assign df c f) = map (\<lambda>r. r(c \<mapsto> f r)) (rows df)"
  by (simp add: assign_def)

lemma columns_assign: "set (columns (assign df c f)) = insert c (set (columns df))"
  by (auto simp add: assign_def)

lemma rows_loc_add:
  "rows (loc_add df p c x)
     = map (\<lambda>r. if p r then r(c \<mapsto> fl_add (cell_of r c) (Fin x)) else r) (rows df)"
  by (simp add: loc_add_def)

lemma columns_loc_add: "columns (loc_add df p c x) = columns df"
  by (simp add: loc_add_def)

lemma quality_metrics_total:
  assumes "''net_profit'' \<in> set (columns df)" and "''total_assets'' \<in> set (columns df)"
  shows "\<exists>df'. ebind (assign_fcf_to_net_income df) calculate_quality_metrics = Inr df' \<and>
           length (rows df') = length (rows df)"
  using assms
  by (simp add: assign_fcf_to_net_income_def calculate_quality_metrics_def ebind_def Let_def
      columns_assign columns_loc_add rows_assign rows_loc_add)





section \<open>A grade outside the five letters\<close>

lemma analyze_company_structure:
  assumes "calculate_altman_z_score pf data = Inr z"
    and "calculate_graham_upside pf data (Some (calculate_graham_number pf data)) = Inr u"
    and "calculate_magic_formula_rank pf data = Inr k"
    and "calculate_dividend_score pf data = Inr d"
    and "calculate_growth_score pf data = Inr g"
    and "calculate_momentum_score pf data = Inr m"
    and "calculate_composite_score
           (score_args (calculate_value_score pf data) (calculate_quality_score pf data)
              (calculate_safety_score pf data) d g m) = c"
  shows "analyze_company pf data =
           Inr \<lparr>piotroski_f_score = calculate_piotroski_f_score pf data,
                altman_z_score = z,
                graham_number = calculate_graham_number pf data,
                graham_upside = u,
                magic_formula_rank = k,
                quality_score = calculate_quality_score pf data,
                safety_score = calculate_safety_score pf data,
                value_score = calculate_value_score pf data,
                dividend_score = d,
                growth_score = g,
                momentum_score = m,
                composite_score = c,
                investment_grade = determine_grade c (calculate_piotroski_f_score pf data) (Fin z),
                recommendation = generate_recommendation c
                                   (calculate_piotroski_f_score pf data) (Fin z) (Fin u)\<rparr>"
  unfolding analyze_company_def Let_def assms ebind_Inr by simp

lemma distressed_record_fields:
  "get_float pf distressed_record ''pe_ratio'' a = 8"
  "get_float pf distressed_record ''pb_ratio'' a = 0.7"
  "get_float pf distressed_record ''dividend_yield'' a = 8"
  "get_float pf distressed_record ''total_assets'' a = 100"
  "get_float pf distressed_record ''total_liabilities'' a = 100"
  "get_float pf distressed_record ''market_cap'' a = 50"
  by (simp_all add: get_float_def distressed_record_def)

lemma distressed_record_defaults:
  "key \<notin> set [''symbol'', ''pe_ratio'', ''pb_ratio'', ''dividend_yield'', ''total_assets'',
                ''total_liabilities'', ''market_cap''] \<Longrightarrow>
   get_float pf distressed_record key a = a"
  by (simp add: get_float_def distressed_record_def)

lemma distressed_record_grade:
  "\<exists>sc. analyze_company pf distressed_record = Inr sc \<and> composite_score sc = 41 \<and>
     piotroski_f_score sc = 0 \<and> altman_z_score sc = 0.3 \<and> investment_grade sc = ''E''"
proof -
  note gf = distressed_record_fields distressed_record_defaults
  have piotroski: "calculate_piotroski_f_score pf distressed_record = 0"
    by (simp add: calculate_piotroski_f_score_def gf)
  have "round_half_even 30 = 30" using round_half_even_of_int [of 30] by simp
  then have "round2 0.3 = 0.3" by (simp add: round2_def)
  then have altman: "calculate_altman_z_score pf distressed_record = Inr 0.3"
    by (simp add: calculate_altman_z_score_def gf ebind_Inr py_div_def)
  obtain u where upside: "calculate_graham_upside pf distressed_record
      (Some (calculate_graham_number pf distressed_record)) = Inr u"
    using graham_upside_total by blast
  obtain k where magic: "calculate_magic_formula_rank pf distressed_record = Inr k"
    using magic_rank_total by blast
  have quality: "calculate_quality_score pf distressed_record = 0"
    by (simp add: calculate_quality_score_def gf)
  have safety: "calculate_safety_score pf distressed_record = 30"
    by (simp add: calculate_safety_score_def gf)
  have val: "calculate_value_score pf distressed_record = 100"
    by (simp add: calculate_value_score_def gf)
  have dividend: "calculate_dividend_score pf distressed_record = Inr 50"
    by (simp add: calculate_dividend_score_def gf ebind_Inr)
  have growth: "calculate_growth_score pf distressed_record = Inr 25"
    by (simp add: calculate_growth_score_def gf ebind_Inr)
  have momentum: "calculate_momentum_score pf distressed_record = Inr 15"
    by (simp add: calculate_momentum_score_def gf ebind_Inr)
  have "\<lfloor>41.75 :: real\<rfloor> = 41" by (rule floor_unique) simp_all
  then have "calculate_composite_score (score_args 100 0 30 50 25 15) = 41"
    by (simp add: composite_explicit spec_weighted_sum_def py_int_def)
  then have composite: "calculate_composite_score
      (score_args (calculate_value_score pf distressed_record)
         (calculate_quality_score pf distressed_record)
         (calculate_safety_score pf distressed_record) 50 25 15) = 41"
    by (simp only: val quality safety)
  have grade: "determine_grade 41 0 (Fin 0.3) = ''E''"
    by (simp add: determine_grade_def ladder_grade_def piotroski_adjust_def
        altman_adjust_def py_chr_letters py_ord_letters)
  show ?thesis
    unfolding analyze_company_structure [OF altman upside magic dividend growth momentum
        composite]
    by (simp add: piotroski grade)
qed

text \<open>
  Claim C1.  The grade is one of the five letters A, B, C, D, F.  The code breaks this: a
  composite score of 40 gives the base grade D, a Piotroski score of 5 leaves it alone,
  and an Altman value of 1.0, below 1.81, moves D one code point up, to the letter E.
  The whole analysis reaches this case: the distressed record has the composite score 41,
  the Piotroski score 0 and the Altman value 0.3, and its grade is E.
\<close>

theorem determine_grade_yields_E:
  "determine_grade 40 5 (Fin 1) = ''E'' \<and>
   determine_grade 40 5 (Fin 1) \<notin> {''A'', ''B'', ''C'', ''D'', ''F''} \<and>
   (\<exists>sc. analyze_company reject_all distressed_record = Inr sc \<and>
      composite_score sc = 41 \<and> piotroski_f_score sc = 0 \<and> altman_z_score sc = 0.3 \<and>
      investment_grade sc = ''E'')"
proof -
  have "determine_grade 40 5 (Fin 1) = ''E''"
    by (simp add: determine_grade_def ladder_grade_def piotroski_adjust_def
        altman_adjust_def py_chr_letters py_ord_letters)
  then show ?thesis
    using distressed_record_grade [of reject_all] by simp
qed

end
